theory Spec2Isabelle
  imports Main "HOL-Library.Char_ord" "HOL-Library.List_Lexorder" "HOL-Library.Sublist"
begin

section \<open>JavaScript values used by the search evaluation runner\<close>

text \<open>
  Strings are lists of code units. A \<open>Date\<close> is its time value in milliseconds since
  the epoch, or \<open>None\<close> for an invalid date (time value NaN). \<open>Date.parse\<close> is a
  built-in of the host; it is a parameter \<open>P\<close> of the model, except that the empty
  string is never a date.
\<close>

type_synonym Date = "int option"

type_synonym date_parser = "string \<Rightarrow> int option"

definition Date_parse :: "date_parser \<Rightarrow> string \<Rightarrow> int option" where
  "Date_parse P s = (if s = [] then None else P s)"

definition new_Date :: "date_parser \<Rightarrow> string \<Rightarrow> Date" where
  "new_Date P s = Date_parse P s"

text \<open>Relational comparison of two dates: false as soon as one side is NaN.\<close>

fun date_less :: "Date \<Rightarrow> Date \<Rightarrow> bool" where
  "date_less (Some a) (Some b) = (a < b)"
| "date_less _ _ = False"

fun date_greater :: "Date \<Rightarrow> Date \<Rightarrow> bool" where
  "date_greater (Some a) (Some b) = (a > b)"
| "date_greater _ _ = False"

text \<open>A property that may be undefined, null or hold a value (\<open>string | null\<close>, optional).\<close>

datatype 'a nullable = Undefined | Null | Value 'a

text \<open>Truthiness of an optional string: undefined and the empty string are falsy.\<close>

fun truthy :: "string option \<Rightarrow> bool" where
  "truthy None = False"
| "truthy (Some s) = (s \<noteq> [])"

fun truthy_nullable :: "string nullable \<Rightarrow> bool" where
  "truthy_nullable (Value s) = (s \<noteq> [])"
| "truthy_nullable _ = False"

section \<open>Data model (types.ts)\<close>

record SearchQuery =
  query :: string
  groundTruth :: "string option"
  validFrom :: "string option"
  validUntil :: "string nullable"

section \<open>Validity filter (runner)\<close>

text \<open>
  \<^verbatim>\<open>if (!query.validFrom && !query.validUntil) return true;
  if (query.validFrom && now < new Date(query.validFrom)) return false;
  if (query.validUntil && now > new Date(query.validUntil)) return false;
  return true;\<close>
\<close>

definition before_validFrom :: "date_parser \<Rightarrow> string option \<Rightarrow> Date \<Rightarrow> bool" where
  "before_validFrom P vf now =
     (case vf of None \<Rightarrow> False | Some s \<Rightarrow> s \<noteq> [] \<and> date_less now (new_Date P s))"

definition after_validUntil :: "date_parser \<Rightarrow> string nullable \<Rightarrow> Date \<Rightarrow> bool" where
  "after_validUntil P vu now =
     (case vu of Value s \<Rightarrow> s \<noteq> [] \<and> date_greater now (new_Date P s) | _ \<Rightarrow> False)"

definition isQueryRunnable :: "date_parser \<Rightarrow> SearchQuery \<Rightarrow> Date \<Rightarrow> bool" where
  "isQueryRunnable P q now =
     (if \<not> truthy (validFrom q) \<and> \<not> truthy_nullable (validUntil q) then True
      else if before_validFrom P (validFrom q) now then False
      else if after_validUntil P (validUntil q) now then False
      else True)"

section \<open>Strings and the console\<close>

fun join :: "string \<Rightarrow> string list \<Rightarrow> string" where
  "join sep [] = []"
| "join sep [x] = x"
| "join sep (x # y # ys) = x @ sep @ join sep (y # ys)"

text \<open>Decimal rendering of a number inside a template literal.\<close>

fun show_nat :: "nat \<Rightarrow> string" where
  "show_nat n =
     (if n < 10 then [''0123456789'' ! n]
      else show_nat (n div 10) @ [''0123456789'' ! (n mod 10)])"

text \<open>\<^verbatim>\<open>.replace(/:/g, "-")\<close>\<close>

definition replace_colons :: "string \<Rightarrow> string" where
  "replace_colons s = map (\<lambda>c. if c = CHR '':'' then CHR ''-'' else c) s"

text \<open>
  White space removed by \<^verbatim>\<open>trim()\<close>, among the code units below 256: tab, line feed,
  vertical tab, form feed, carriage return, space and the no-break space.
\<close>

definition is_js_space :: "char \<Rightarrow> bool" where
  "is_js_space c = (of_char c \<in> {9, 10, 11, 12, 13, 32, 160 :: nat})"

definition trim_is_empty :: "string \<Rightarrow> bool" where
  "trim_is_empty s = list_all is_js_space s"

text \<open>
  Property names every plain object inherits from \<open>Object.prototype\<close>: a lookup
  \<^verbatim>\<open>table[name]\<close> with one of them finds the inherited value, which is neither
  undefined nor null.
\<close>

definition object_prototype_keys :: "string list" where
  "object_prototype_keys =
     [''constructor'', ''__defineGetter__'', ''__defineSetter__'', ''hasOwnProperty'',
      ''__lookupGetter__'', ''__lookupSetter__'', ''isPrototypeOf'', ''propertyIsEnumerable'',
      ''toString'', ''valueOf'', ''__proto__'', ''toLocaleString'']"

section \<open>The world the runner acts on\<close>

text \<open>
  A thrown value, as far as the expression
  \<^verbatim>\<open>error instanceof Error ? error.message : String(error)\<close> tells values apart: an
  \<open>Error\<close> with a string message, an \<open>Error\<close> whose message is undefined, another
  value with its \<open>String(...)\<close> rendering, or a value on which the expression itself
  throws (an object whose conversion to a string throws, for one) together with what it
  throws. \<open>message_of\<close> is that expression: the message, or the value thrown. A
  message that is neither a string nor undefined is outside the declared type of the
  \<open>error\<close> field of a response and is left out.
\<close>

datatype thrown = ErrorObj string | ErrorNoMessage | OtherThrown string | Unprintable thrown

fun message_of :: "thrown \<Rightarrow> thrown + string option" where
  "message_of (ErrorObj m) = Inr (Some m)"
| "message_of ErrorNoMessage = Inr None"
| "message_of (OtherThrown s) = Inr (Some s)"
| "message_of (Unprintable t) = Inl t"

text \<open>
  A JSON value read where a string is expected: only \<open>typeof\<close> and the comparison with
  \<open>undefined\<close> are applied to it, so every non-string value (null included) is
  \<open>NotString\<close>. The two bounds of the window are taken at their declared types.
\<close>

datatype jfield = Missing | NotString | Str string

record raw_fields =
  j_query :: jfield
  j_groundTruth :: jfield
  j_validFrom :: "string option"
  j_validUntil :: "string nullable"

text \<open>
  An entry of a query file: \<open>NotObject\<close> is null or a primitive; an array is an object
  with every field missing.
\<close>

datatype raw_entry = NotObject | Object raw_fields

text \<open>
  The state threaded through the run: the readings the system clock will give and how
  many were taken, \<open>process.env\<close>, the lines written by \<open>console.warn\<close> (oldest
  first), the providers whose module-level \<open>client\<close> is already constructed, the
  outcome of reading and parsing each of the two query files, which of the two settles
  first when both fail, and the query files read so far. The progress lines of
  \<open>console.log\<close> are not part of the state.
\<close>

record world =
  clock :: "nat \<Rightarrow> int"
  ticks :: nat
  env :: "string \<Rightarrow> string option"
  warned :: "string list"
  clients :: "string list"
  static_file :: "thrown + raw_entry list"
  temporal_file :: "thrown + raw_entry list"
  temporal_fails_first :: bool
  files_read :: "string list"

definition Date_now :: "world \<Rightarrow> int \<times> world" where
  "Date_now w = (clock w (ticks w), w\<lparr>ticks := Suc (ticks w)\<rparr>)"

definition console_warn :: "string \<Rightarrow> world \<Rightarrow> world" where
  "console_warn line w = w\<lparr>warned := warned w @ [line]\<rparr>"

fun console_warn_all :: "string list \<Rightarrow> world \<Rightarrow> world" where
  "console_warn_all [] w = w"
| "console_warn_all (l # ls) w = console_warn_all ls (console_warn l w)"

section \<open>Data model, continued\<close>

type_synonym params = "(string \<times> string) list"

record SearchConfig =
  cfg_id :: string
  gateway :: string
  parameters :: params

record SearchResponse =
  data :: "string option"
  latencyMs :: int
  tokenCount :: nat
  requestId :: "string option"
  error :: "string option"

record QueryResult =
  res_query :: string
  res_groundTruth :: "string option"
  res_validFrom :: "string option"
  res_validUntil :: "string nullable"
  configId :: string
  res_gateway :: string
  res_parameters :: params
  executedAt :: string
  response :: SearchResponse
  hasError :: bool

record RunResult =
  run_id :: string
  run_executedAt :: string
  results :: "QueryResult list"

text \<open>\<open>SearchGateway.search\<close>: it returns a response or throws, and may act on the world.\<close>

type_synonym SearchGateway =
  "string \<Rightarrow> params \<Rightarrow> world \<Rightarrow> (thrown + SearchResponse) \<times> world"

section \<open>Query loading and validation (runner)\<close>

text \<open>
  \<open>loadQueries\<close> starts both reads, parses each file and concatenates them. It
  rejects when either read or parse does; when both do, \<open>Promise.all\<close> rejects with
  the rejection that comes first.
\<close>

definition loadQueries :: "world \<Rightarrow> (thrown + raw_entry list) \<times> world" where
  "loadQueries w =
     (let w1 = w\<lparr>files_read :=
                 files_read w @ [''queries/queries-static.json'', ''queries/queries-temporal.json'']\<rparr>
      in case static_file w of
           Inl e \<Rightarrow>
             (case temporal_file w of
                Inl e' \<Rightarrow> (Inl (if temporal_fails_first w then e' else e), w1)
              | Inr temporalQueries \<Rightarrow> (Inl e, w1))
         | Inr staticQueries \<Rightarrow>
             (case temporal_file w of
                Inl e' \<Rightarrow> (Inl e', w1)
              | Inr temporalQueries \<Rightarrow> (Inr (staticQueries @ temporalQueries), w1)))"

definition isValidIsoDate :: "date_parser \<Rightarrow> string \<Rightarrow> bool" where
  "isValidIsoDate P v = (Date_parse P v \<noteq> None)"

text \<open>
  The tests of the \<open>forEach\<close> body of \<open>validateQueries\<close> on the two bounds:
  \<^verbatim>\<open>query.validFrom && !isValidIsoDate(query.validFrom)\<close>,
  \<^verbatim>\<open>query.validUntil !== undefined && query.validUntil !== null &&
  (!query.validUntil || !isValidIsoDate(query.validUntil))\<close>, and
  \<^verbatim>\<open>query.validFrom && query.validUntil\<close> with \<^verbatim>\<open>from > until\<close>.
\<close>

definition invalid_validFrom :: "date_parser \<Rightarrow> string option \<Rightarrow> bool" where
  "invalid_validFrom P vf =
     (case vf of None \<Rightarrow> False | Some s \<Rightarrow> s \<noteq> [] \<and> \<not> isValidIsoDate P s)"

definition invalid_validUntil :: "date_parser \<Rightarrow> string nullable \<Rightarrow> bool" where
  "invalid_validUntil P vu =
     (case vu of Value s \<Rightarrow> s = [] \<or> \<not> isValidIsoDate P s | _ \<Rightarrow> False)"

definition from_after_until :: "date_parser \<Rightarrow> string option \<Rightarrow> string nullable \<Rightarrow> bool" where
  "from_after_until P vf vu =
     (case vf of
        None \<Rightarrow> False
      | Some f \<Rightarrow>
          (case vu of
             Value u \<Rightarrow> f \<noteq> [] \<and> u \<noteq> [] \<and> date_greater (new_Date P f) (new_Date P u)
           | _ \<Rightarrow> False))"

definition render_validFrom :: "string option \<Rightarrow> string" where
  "render_validFrom vf = (case vf of None \<Rightarrow> ''undefined'' | Some s \<Rightarrow> s)"

definition render_validUntil :: "string nullable \<Rightarrow> string" where
  "render_validUntil vu =
     (case vu of Undefined \<Rightarrow> ''undefined'' | Null \<Rightarrow> ''null'' | Value s \<Rightarrow> s)"

text \<open>
  One pass of the \<open>forEach\<close> body at the given index: the warning pushed, or the query
  kept. The checks stand in the order of the source; the first that matches returns.
\<close>

definition validate_entry :: "date_parser \<Rightarrow> nat \<Rightarrow> raw_entry \<Rightarrow> string + SearchQuery" where
  \<open>validate_entry P index e =
     (case e of
        NotObject \<Rightarrow> Inl (''Query #'' @ show_nat (index + 1) @ '' is not an object.'')
      | Object r \<Rightarrow>
          (case j_query r of
             Missing \<Rightarrow>
               Inl (''Query #'' @ show_nat (index + 1) @ '' has an invalid or empty "query" field.'')
           | NotString \<Rightarrow>
               Inl (''Query #'' @ show_nat (index + 1) @ '' has an invalid or empty "query" field.'')
           | Str text \<Rightarrow>
               if trim_is_empty text then
                 Inl (''Query #'' @ show_nat (index + 1) @ '' has an invalid or empty "query" field.'')
               else
                 (case j_groundTruth r of
                    NotString \<Rightarrow>
                      Inl (''Query #'' @ show_nat (index + 1) @ '' has a non-string "groundTruth".'')
                  | gt \<Rightarrow>
                      if invalid_validFrom P (j_validFrom r) then
                        Inl (''Query #'' @ show_nat (index + 1) @ '' has invalid "validFrom": ''
                             @ render_validFrom (j_validFrom r))
                      else if invalid_validUntil P (j_validUntil r) then
                        Inl (''Query #'' @ show_nat (index + 1) @ '' has invalid "validUntil": ''
                             @ render_validUntil (j_validUntil r))
                      else if from_after_until P (j_validFrom r) (j_validUntil r) then
                        Inl (''Query #'' @ show_nat (index + 1) @ '' has validFrom after validUntil.'')
                      else
                        Inr \<lparr>query = text,
                             groundTruth = (case gt of Str g \<Rightarrow> Some g | _ \<Rightarrow> None),
                             validFrom = j_validFrom r,
                             validUntil = j_validUntil r\<rparr>)))\<close>

text \<open>The \<open>forEach\<close> loop: the queries kept and the warnings pushed, both in order.\<close>

fun validate_loop :: "date_parser \<Rightarrow> nat \<Rightarrow> raw_entry list \<Rightarrow> SearchQuery list \<times> string list" where
  "validate_loop P index [] = ([], [])"
| "validate_loop P index (e # es) =
     (let (valid, warnings) = validate_loop P (Suc index) es
      in case validate_entry P index e of
           Inl warning \<Rightarrow> (valid, warning # warnings)
         | Inr q \<Rightarrow> (q # valid, warnings))"

definition validateQueries :: "date_parser \<Rightarrow> raw_entry list \<Rightarrow> world \<Rightarrow> SearchQuery list \<times> world" where
  "validateQueries P queries w =
     (let (valid, warnings) = validate_loop P 0 queries
      in (valid,
          if warnings = [] then w
          else console_warn_all
                 ([''Warning: Skipped '' @ show_nat (length warnings) @ '' invalid queries:'']
                  @ map (\<lambda>warning. ''  - '' @ warning) (take 10 warnings)
                  @ (if length warnings > 10
                     then [''  - ...and '' @ show_nat (length warnings - 10) @ '' more.'']
                     else [])
                  @ [[]])
                 w))"

section \<open>Gateway registry and the provider gateways\<close>

text \<open>
  The registry is the object literal \<open>gateways\<close>, as its entries in order. A name that
  is no own key but is inherited from \<open>Object.prototype\<close> resolves to a value without
  a \<open>search\<close> method: calling it throws a \<open>TypeError\<close>.
\<close>

type_synonym registry = "(string \<times> SearchGateway) list"

definition not_a_gateway :: SearchGateway where
  "not_a_gateway q p w = (Inl (ErrorObj ''gateway.search is not a function''), w)"

definition getGateway :: "registry \<Rightarrow> string \<Rightarrow> thrown + SearchGateway" where
  "getGateway reg name =
     (case map_of reg name of
        Some g \<Rightarrow> Inr g
      | None \<Rightarrow>
          if name \<in> set object_prototype_keys then Inr not_a_gateway
          else Inl (ErrorObj (''Unknown gateway: '' @ name @ ''. Available gateways: ''
                              @ join '', '' (map fst reg))))"

text \<open>
  The reply of a provider's SDK together with its token count, and the SDK call itself,
  which is outside the repository: given the provider, the query and the parameters it
  throws or replies. Building the request from the parameters and counting the tokens
  of the reply are part of it.
\<close>

record sdk_reply =
  payload :: string
  tokens :: nat
  reply_id :: "string option"

type_synonym sdk =
  "string \<Rightarrow> string \<Rightarrow> params \<Rightarrow> world \<Rightarrow> (thrown + sdk_reply) \<times> world"

text \<open>
  \<open>getClient\<close> of a gateway module: the client is built once, from the provider's API
  key, and the call throws when the key is unset or empty.
\<close>

definition getClient :: "string \<Rightarrow> string \<Rightarrow> world \<Rightarrow> thrown + world" where
  "getClient provider key w =
     (if provider \<in> set (clients w) then Inr w
      else if \<not> truthy (env w key) then
        Inl (ErrorObj (key @ '' environment variable is not set''))
      else Inr (w\<lparr>clients := provider # clients w\<rparr>))"

text \<open>
  The \<open>catch\<close> block of a gateway's \<open>search\<close>: it reads the clock, builds the message
  and returns an error response; where building the message throws, \<open>search\<close> throws.
\<close>

definition search_catch :: "int \<Rightarrow> thrown \<Rightarrow> world \<Rightarrow> (thrown + SearchResponse) \<times> world" where
  "search_catch startTime e w =
     (let (t, w1) = Date_now w
      in case message_of e of
           Inl e' \<Rightarrow> (Inl e', w1)
         | Inr errorMessage \<Rightarrow>
             (Inr \<lparr>data = None, latencyMs = t - startTime, tokenCount = 0, requestId = None,
                  error = errorMessage\<rparr>, w1))"

text \<open>
  The \<open>search\<close> method shared by the three gateway classes: everything after the first
  clock reading is inside \<open>try\<close>, and the \<open>catch\<close> is \<open>search_catch\<close>. The flag says
  whether the class copies a request id from the reply.
\<close>

definition gateway_search :: "string \<Rightarrow> string \<Rightarrow> bool \<Rightarrow> sdk \<Rightarrow> SearchGateway" where
  "gateway_search provider key with_id call q p w =
     (let (startTime, w1) = Date_now w
      in case getClient provider key w1 of
           Inl e \<Rightarrow> search_catch startTime e w1
         | Inr w2 \<Rightarrow>
             (case call provider q p w2 of
                (Inl e, w3) \<Rightarrow> search_catch startTime e w3
              | (Inr reply, w3) \<Rightarrow>
                  (let (t, w4) = Date_now w3
                   in (Inr \<lparr>data = Some (payload reply), latencyMs = t - startTime,
                            tokenCount = tokens reply,
                            requestId = (if with_id then reply_id reply else None),
                            error = None\<rparr>, w4))))"

definition TavilyGateway :: "sdk \<Rightarrow> SearchGateway" where
  "TavilyGateway call = gateway_search ''tavily'' ''TAVILY_API_KEY'' False call"

definition ParallelGateway :: "sdk \<Rightarrow> SearchGateway" where
  "ParallelGateway call = gateway_search ''parallel'' ''PARALLEL_API_KEY'' True call"

definition YouGateway :: "sdk \<Rightarrow> SearchGateway" where
  "YouGateway call = gateway_search ''you'' ''YOU_API_KEY'' True call"

definition gateways :: "sdk \<Rightarrow> registry" where
  "gateways call =
     [(''tavily'', TavilyGateway call),
      (''parallel'', ParallelGateway call),
      (''you'', YouGateway call)]"

section \<open>Run orchestrator (runner)\<close>

text \<open>
  The \<open>catch\<close> block of \<open>executeQuery\<close>: it builds the message, then reads the clock
  for the error response; where building the message throws, \<open>executeQuery\<close> throws.
\<close>

definition executeQuery_catch ::
  "int \<Rightarrow> thrown \<Rightarrow> world \<Rightarrow> (thrown + SearchResponse) \<times> world" where
  "executeQuery_catch startTime e w =
     (case message_of e of
        Inl e' \<Rightarrow> (Inl e', w)
      | Inr errorMessage \<Rightarrow>
          (let (t, w1) = Date_now w
           in (Inr \<lparr>data = None, latencyMs = t - startTime, tokenCount = 0, requestId = None,
                   error = errorMessage\<rparr>, w1)))"

text \<open>
  \<open>executeQuery\<close>: two clock readings (\<open>startTime\<close>, \<open>executedAt\<close>), then the registry
  lookup and the call inside \<open>try\<close>, with \<open>executeQuery_catch\<close> for what they throw; the
  record is built from the response. \<open>toISOString\<close> is a built-in of the host, the
  parameter \<open>toISO\<close>.
\<close>

definition executeQuery ::
  "(int \<Rightarrow> string) \<Rightarrow> registry \<Rightarrow> SearchQuery \<Rightarrow> SearchConfig \<Rightarrow> world
     \<Rightarrow> (thrown + QueryResult) \<times> world" where
  "executeQuery toISO reg q c w =
     (let (startTime, w1) = Date_now w;
          (t, w2) = Date_now w1;
          (outcome, w3) =
            (case getGateway reg (gateway c) of
               Inl e \<Rightarrow> executeQuery_catch startTime e w2
             | Inr g \<Rightarrow>
                 (case g (query q) (parameters c) w2 of
                    (Inl e, w') \<Rightarrow> executeQuery_catch startTime e w'
                  | (Inr r, w') \<Rightarrow> (Inr r, w')))
      in case outcome of
           Inl e \<Rightarrow> (Inl e, w3)
         | Inr resp \<Rightarrow>
             (Inr \<lparr>res_query = query q,
                  res_groundTruth = groundTruth q,
                  res_validFrom = validFrom q,
                  res_validUntil = validUntil q,
                  configId = cfg_id c,
                  res_gateway = gateway c,
                  res_parameters = parameters c,
                  executedAt = toISO t,
                  response = resp,
                  hasError = truthy (error resp)\<rparr>, w3))"

definition requiredEnvByGateway :: "(string \<times> string list) list" where
  "requiredEnvByGateway =
     [(''tavily'', [''TAVILY_API_KEY'']), (''parallel'', [''PARALLEL_API_KEY''])]"

text \<open>
  \<^verbatim>\<open>requiredEnvByGateway[config.gateway] ?? []\<close> followed by \<open>required.filter\<close>: an
  inherited property is no array, and filtering it throws.
\<close>

definition required_env :: "string \<Rightarrow> thrown + string list" where
  "required_env g =
     (case map_of requiredEnvByGateway g of
        Some keys \<Rightarrow> Inr keys
      | None \<Rightarrow>
          if g \<in> set object_prototype_keys
          then Inl (ErrorObj ''required.filter is not a function'')
          else Inr [])"

text \<open>The credential pre-check, \<open>configs.filter(...)\<close>, with its warnings.\<close>

fun filter_configs :: "SearchConfig list \<Rightarrow> world \<Rightarrow> (thrown + SearchConfig list) \<times> world" where
  "filter_configs [] w = (Inr [], w)"
| "filter_configs (c # cs) w =
     (case required_env (gateway c) of
        Inl e \<Rightarrow> (Inl e, w)
      | Inr required \<Rightarrow>
          (let missing = filter (\<lambda>key. \<not> truthy (env w key)) required
           in if missing \<noteq> [] then
                filter_configs cs
                  (console_warn (''Skipping config '' @ cfg_id c @ '' (missing ''
                                 @ join '', '' missing @ '')'') w)
              else
                (case filter_configs cs w of
                   (Inl e, w1) \<Rightarrow> (Inl e, w1)
                 | (Inr rest, w1) \<Rightarrow> (Inr (c # rest), w1))))"

text \<open>
  The inner loop over the runnable configurations and the outer loop over the runnable
  queries. Nothing catches what \<open>executeQuery\<close> throws: the loops stop there and the
  run rejects.
\<close>

fun run_configs ::
  "(int \<Rightarrow> string) \<Rightarrow> registry \<Rightarrow> SearchQuery \<Rightarrow> SearchConfig list \<Rightarrow> world
     \<Rightarrow> (thrown + QueryResult list) \<times> world" where
  "run_configs toISO reg q [] w = (Inr [], w)"
| "run_configs toISO reg q (c # cs) w =
     (case executeQuery toISO reg q c w of
        (Inl e, w1) \<Rightarrow> (Inl e, w1)
      | (Inr r, w1) \<Rightarrow>
          (case run_configs toISO reg q cs w1 of
             (Inl e, w2) \<Rightarrow> (Inl e, w2)
           | (Inr rs, w2) \<Rightarrow> (Inr (r # rs), w2)))"

fun run_queries ::
  "(int \<Rightarrow> string) \<Rightarrow> registry \<Rightarrow> SearchQuery list \<Rightarrow> SearchConfig list \<Rightarrow> world
     \<Rightarrow> (thrown + QueryResult list) \<times> world" where
  "run_queries toISO reg [] cs w = (Inr [], w)"
| "run_queries toISO reg (q # qs) cs w =
     (case run_configs toISO reg q cs w of
        (Inl e, w1) \<Rightarrow> (Inl e, w1)
      | (Inr rs, w1) \<Rightarrow>
          (case run_queries toISO reg qs cs w1 of
             (Inl e, w2) \<Rightarrow> (Inl e, w2)
           | (Inr rest, w2) \<Rightarrow> (Inr (rs @ rest), w2)))"

text \<open>
  The run of the matrix from a pair on: the given configurations for the current query,
  then every configuration for each of the later queries.
\<close>

definition run_from ::
  "(int \<Rightarrow> string) \<Rightarrow> registry \<Rightarrow> SearchQuery \<Rightarrow> SearchConfig list \<Rightarrow> SearchQuery list
     \<Rightarrow> SearchConfig list \<Rightarrow> world \<Rightarrow> (thrown + QueryResult list) \<times> world" where
  "run_from toISO reg q cs qs every w =
     (case run_configs toISO reg q cs w of
        (Inl e, w1) \<Rightarrow> (Inl e, w1)
      | (Inr rs, w1) \<Rightarrow>
          (case run_queries toISO reg qs every w1 of
             (Inl e, w2) \<Rightarrow> (Inl e, w2)
           | (Inr rest, w2) \<Rightarrow> (Inr (rs @ rest), w2)))"

definition runnable_queries :: "date_parser \<Rightarrow> int \<Rightarrow> SearchQuery list \<Rightarrow> SearchQuery list" where
  "runnable_queries P now validatedQueries =
     filter (\<lambda>q. isQueryRunnable P q (Some now)) validatedQueries"

definition runEvaluation ::
  "date_parser \<Rightarrow> (int \<Rightarrow> string) \<Rightarrow> registry \<Rightarrow> SearchConfig list \<Rightarrow> world
     \<Rightarrow> (thrown + RunResult) \<times> world" where
  "runEvaluation P toISO reg configs w =
     (let (now, w1) = Date_now w;
          runId = replace_colons (toISO now)
      in case filter_configs configs w1 of
           (Inl e, w2) \<Rightarrow> (Inl e, w2)
         | (Inr runnableConfigs, w2) \<Rightarrow>
             if runnableConfigs = [] then
               (Inr \<lparr>run_id = runId, run_executedAt = toISO now, results = []\<rparr>,
                console_warn ''No runnable configs. Set missing API keys to run evaluations.'' w2)
             else
               (case loadQueries w2 of
                  (Inl e, w3) \<Rightarrow> (Inl e, w3)
                | (Inr allQueries, w3) \<Rightarrow>
                    (let (validatedQueries, w4) = validateQueries P allQueries w3;
                         runnableQueries = runnable_queries P now validatedQueries
                     in case run_queries toISO reg runnableQueries runnableConfigs w4 of
                          (Inl e, w5) \<Rightarrow> (Inl e, w5)
                        | (Inr rs, w5) \<Rightarrow>
                            (Inr \<lparr>run_id = runId, run_executedAt = toISO now, results = rs\<rparr>,
                             w5))))"

section \<open>Result store lookup and grading pass (evaluator)\<close>

text \<open>
  The part of the file system the evaluator touches: what \<open>readFile\<close> and \<open>readdir\<close>
  give for a path (a value, or the error they throw), and the error, if any, that
  \<open>mkdir\<close> and \<open>writeFile\<close> throw for a path; with it \<open>process.env\<close> and the lines
  written by \<open>console.warn\<close>. Paths are joined with a slash; \<open>projectRoot\<close> is a
  normalised path.
\<close>

record disk =
  readFile :: "string \<Rightarrow> thrown + string"
  readdir :: "string \<Rightarrow> thrown + string list"
  mkdir_throws :: "string \<Rightarrow> thrown option"
  writeFile_throws :: "string \<Rightarrow> thrown option"
  disk_env :: "string \<Rightarrow> string option"
  disk_warned :: "string list"

definition join_path :: "string \<Rightarrow> string \<Rightarrow> string" where
  "join_path dir name = dir @ ''/'' @ name"

definition basename :: "string \<Rightarrow> string" where
  "basename p =
     rev (takeWhile (\<lambda>c. c \<noteq> CHR ''/'') (dropWhile (\<lambda>c. c = CHR ''/'') (rev p)))"

definition endsWith :: "string \<Rightarrow> string \<Rightarrow> bool" where
  "endsWith s sfx = (length sfx \<le> length s \<and> drop (length s - length sfx) s = sfx)"

text \<open>
  \<^verbatim>\<open>files.filter((f) => f.endsWith(".json")).sort().reverse()\<close>: the default sort
  compares strings code unit by code unit, the lexicographic order of lists.
\<close>

definition findLatestResultsFile :: "string \<Rightarrow> disk \<Rightarrow> thrown + string" where
  "findLatestResultsFile projectRoot d =
     (let resultsDir = join_path projectRoot ''results''
      in case readdir d resultsDir of
           Inl e \<Rightarrow> Inl e
         | Inr files \<Rightarrow>
             (let jsonFiles = rev (sort (filter (\<lambda>f. endsWith f ''.json'') files))
              in case jsonFiles of
                   [] \<Rightarrow> Inl (ErrorObj ''No results files found in results/'')
                 | latest # _ \<Rightarrow> Inr (join_path resultsDir latest)))"

text \<open>
  The chat completion request and the LLM client, which is outside the repository: it
  throws, or gives the content of the first choice, if there is one.
\<close>

record chat_request =
  model :: string
  max_completion_tokens :: nat
  messages :: "(string \<times> string) list"

type_synonym llm = "chat_request \<Rightarrow> thrown + string option"

definition grading_request :: "string \<Rightarrow> string \<Rightarrow> string \<Rightarrow> chat_request" where
  "grading_request m instructions results_text =
     \<lparr>model = m,
      max_completion_tokens = 8192,
      messages =
        [(''user'',
          instructions @ [CHR 0x0A, CHR 0x0A] @ ''## Results to Evaluate'' @ [CHR 0x0A, CHR 0x0A]
          @ results_text)]\<rparr>"

text \<open>
  \<^verbatim>\<open>process.env.EVAL_MODEL || "gpt-4o"\<close>, then
  \<open>evaluate\<close>: read the results file and the instructions as text, send one request,
  warn when the output is no JSON (\<open>JSON.parse\<close> is a built-in, the parameter
  \<open>is_json\<close>), and write the output under \<open>evals/\<close> with the file name of the results.
\<close>

definition eval_model :: "disk \<Rightarrow> string" where
  "eval_model d =
     (case disk_env d ''EVAL_MODEL'' of
        Some v \<Rightarrow> if v \<noteq> [] then v else ''gpt-4o''
      | None \<Rightarrow> ''gpt-4o'')"

definition evaluate ::
  "string \<Rightarrow> llm \<Rightarrow> (string \<Rightarrow> bool) \<Rightarrow> string \<Rightarrow> disk \<Rightarrow> (thrown + string) \<times> disk" where
  "evaluate projectRoot client is_json resultsPath d =
     (case readFile d resultsPath of
        Inl e \<Rightarrow> (Inl e, d)
      | Inr results_text \<Rightarrow>
          (case readFile d (join_path projectRoot ''EVALUATOR_INSTRUCTIONS.md'') of
             Inl e \<Rightarrow> (Inl e, d)
           | Inr instructions \<Rightarrow>
               (case client (grading_request (eval_model d) instructions results_text) of
                  Inl e \<Rightarrow> (Inl e, d)
                | Inr content \<Rightarrow>
                    (let output = (case content of Some text \<Rightarrow> text | None \<Rightarrow> []);
                         d1 = (if is_json output then d
                               else d\<lparr>disk_warned := disk_warned d
                                      @ [''Warning: LLM output is not valid JSON. Writing raw output.'']\<rparr>);
                         evalsDir = join_path projectRoot ''evals''
                     in case mkdir_throws d1 evalsDir of
                          Some e \<Rightarrow> (Inl e, d1)
                        | None \<Rightarrow>
                            (let evalPath = join_path evalsDir (basename resultsPath)
                             in case writeFile_throws d1 evalPath of
                                  Some e \<Rightarrow> (Inl e, d1)
                                | None \<Rightarrow>
                                    (Inr evalPath,
                                     d1\<lparr>readFile := (readFile d1)(evalPath := Inr output)\<rparr>))))))"

text \<open>The two timestamps of the documented example query, for the concrete checks.\<close>

definition example_parser :: date_parser where
  "example_parser s =
     (if s = ''2025-01-28T23:00:00Z'' then Some 1738105200000
      else if s = ''2025-02-01T19:00:00Z'' then Some 1738436400000
      else None)"

section \<open>What a result record was made from\<close>

text \<open>
  A result record embeds every field of its query and of its configuration; these read
  them back.
\<close>

definition query_of :: "QueryResult \<Rightarrow> SearchQuery" where
  "query_of r = \<lparr>query = res_query r, groundTruth = res_groundTruth r,
                 validFrom = res_validFrom r, validUntil = res_validUntil r\<rparr>"

definition config_of :: "QueryResult \<Rightarrow> SearchConfig" where
  "config_of r = \<lparr>cfg_id = configId r, gateway = res_gateway r, parameters = res_parameters r\<rparr>"

text \<open>
  The runnable configuration set and the runnable query set of a run started in world
  \<open>w\<close>: what the credential pre-check keeps, and what validation and the validity
  filter keep of the two query files at the run's single reading of the clock. They
  are empty where the run fails before it has them.
\<close>

definition runnable_config_set :: "SearchConfig list \<Rightarrow> world \<Rightarrow> SearchConfig list" where
  "runnable_config_set configs w =
     (case fst (filter_configs configs w) of Inl e \<Rightarrow> [] | Inr runnableConfigs \<Rightarrow> runnableConfigs)"

definition runnable_query_set :: "date_parser \<Rightarrow> world \<Rightarrow> SearchQuery list" where
  "runnable_query_set P w =
     (case fst (loadQueries w) of
        Inl e \<Rightarrow> []
      | Inr allQueries \<Rightarrow>
          runnable_queries P (fst (Date_now w)) (fst (validate_loop P 0 allQueries)))"

section \<open>A concrete run, for the concrete checks\<close>

text \<open>
  Three of the configurations of \<open>configs.ts\<close>, two query files with three entries (one
  of them with an empty \<open>query\<close>), an environment that sets only the Tavily key, a clock
  that starts on 2025-01-30T00:00:00Z and advances 7 ms per reading, and an SDK that
  always replies. \<open>example_toISO\<close> renders the instants of that first second.
\<close>

definition example_toISO :: "int \<Rightarrow> string" where
  "example_toISO t =
     ''2025-01-30T00:00:00.''
     @ (let ms = nat (t - 1738195200000)
        in (if ms < 10 then ''00'' else if ms < 100 then ''0'' else []) @ show_nat ms)
     @ ''Z''"

definition example_sdk :: sdk where
  "example_sdk provider q p w = (Inr \<lparr>payload = ''results'', tokens = 12, reply_id = None\<rparr>, w)"

definition tavily_basic :: SearchConfig where
  "tavily_basic =
     \<lparr>cfg_id = ''tavily-basic'', gateway = ''tavily'', parameters = [(''searchDepth'', ''basic'')]\<rparr>"

definition parallel_default :: SearchConfig where
  "parallel_default =
     \<lparr>cfg_id = ''parallel-default'', gateway = ''parallel'', parameters = [(''max_results'', ''2'')]\<rparr>"

definition you_default :: SearchConfig where
  "you_default =
     \<lparr>cfg_id = ''you-default'', gateway = ''you'', parameters = [(''count'', ''5'')]\<rparr>"

definition example_configs :: "SearchConfig list" where
  "example_configs = [tavily_basic, parallel_default, you_default]"

definition world_cup_query :: SearchQuery where
  "world_cup_query =
     \<lparr>query = ''Who won the 2022 FIFA World Cup?'', groundTruth = Some ''Argentina'',
      validFrom = None, validUntil = Undefined\<rparr>"

definition real_madrid_query :: SearchQuery where
  "real_madrid_query =
     \<lparr>query = ''What was the last game of Real Madrid?'', groundTruth = None,
      validFrom = Some ''2025-01-28T23:00:00Z'', validUntil = Value ''2025-02-01T19:00:00Z''\<rparr>"

definition example_env :: "string \<Rightarrow> string option" where
  "example_env key = (if key = ''TAVILY_API_KEY'' then Some ''tvly-key'' else None)"

definition example_world :: world where
  "example_world =
     \<lparr>clock = (\<lambda>n. 1738195200000 + 7 * int n),
      ticks = 0,
      env = example_env,
      warned = [],
      clients = [],
      static_file = Inr
        [Object \<lparr>j_query = Str ''Who won the 2022 FIFA World Cup?'', j_groundTruth = Str ''Argentina'',
                 j_validFrom = None, j_validUntil = Undefined\<rparr>,
         Object \<lparr>j_query = Str [], j_groundTruth = Missing,
                 j_validFrom = None, j_validUntil = Undefined\<rparr>],
      temporal_file = Inr
        [Object \<lparr>j_query = Str ''What was the last game of Real Madrid?'', j_groundTruth = Missing,
                 j_validFrom = Some ''2025-01-28T23:00:00Z'',
                 j_validUntil = Value ''2025-02-01T19:00:00Z''\<rparr>],
      temporal_fails_first = False,
      files_read = []\<rparr>"

text \<open>
  A results directory with three run artifacts and another file, and the text of a run
  artifact with one record that has an error and one that lacks a ground truth.
\<close>

definition example_disk :: disk where
  "example_disk =
     \<lparr>readFile = (\<lambda>p. Inl (ErrorObj ''ENOENT: no such file or directory'')),
      readdir = (\<lambda>p. if p = ''/srv/search-evals/results''
                      then Inr [''2025-01-30T14-30-00.000Z.json'', ''notes.txt'',
                                ''2025-02-01T09-00-00.000Z.json'', ''2025-01-28T10-00-00.000Z.json'']
                      else Inl (ErrorObj ''ENOENT: no such file or directory'')),
      mkdir_throws = (\<lambda>p. None),
      writeFile_throws = (\<lambda>p. None),
      disk_env = (\<lambda>key. None),
      disk_warned = []\<rparr>"

definition erroring_record :: string where
  \<open>erroring_record =
     ''{"query":"A","groundTruth":"g","configId":"you-default","response":{"error":"boom"},"hasError":true}''\<close>

definition no_truth_record :: string where
  \<open>no_truth_record =
     ''{"query":"B","configId":"tavily-basic","response":{"data":"d"},"hasError":false}''\<close>

definition artifact_head :: string where
  \<open>artifact_head = ''{"id":"r1","executedAt":"t","results":[''\<close>

definition example_artifact :: string where
  "example_artifact = artifact_head @ erroring_record @ '','' @ no_truth_record @ '']}''"

definition example_instructions :: string where
  "example_instructions = ''Skip results that have no groundTruth field or have hasError: true.''"

definition artifact_disk :: disk where
  "artifact_disk =
     example_disk\<lparr>readFile :=
       (\<lambda>p. if p = ''/srv/search-evals/results/r1.json'' then Inr example_artifact
            else if p = ''/srv/search-evals/EVALUATOR_INSTRUCTIONS.md'' then Inr example_instructions
            else Inl (ErrorObj ''ENOENT: no such file or directory''))\<rparr>"

definition example_llm :: llm where
  "example_llm request = Inr (Some ''[]'')"

text \<open>
  Further pieces for the concrete checks: an environment with every key set, an SDK whose
  call throws an \<open>Error\<close> without a message, an SDK whose call throws an object whose
  conversion to a string throws a given value, a world whose query files cannot be read,
  and a query entry whose \<open>validFrom\<close> is the empty string.
\<close>

definition keyed_world :: world where
  "keyed_world = example_world\<lparr>env := (\<lambda>key. Some ''secret'')\<rparr>"

definition silent_sdk :: sdk where
  "silent_sdk provider q p w = (Inl (ErrorObj []), w)"

definition unprintable_sdk :: "thrown \<Rightarrow> sdk" where
  "unprintable_sdk e provider q p w = (Inl (Unprintable e), w)"

definition unreadable_world :: world where
  "unreadable_world =
     example_world\<lparr>static_file := Inl (ErrorObj ''ENOENT: no such file or directory''),
                   temporal_file := Inl (ErrorObj ''Unexpected end of JSON input'')\<rparr>"

definition empty_validFrom_entry :: raw_entry where
  "empty_validFrom_entry =
     Object \<lparr>j_query = Str ''Q'', j_groundTruth = Missing,
             j_validFrom = Some [], j_validUntil = Undefined\<rparr>"

definition empty_validUntil_entry :: raw_entry where
  "empty_validUntil_entry =
     Object \<lparr>j_query = Str ''Q'', j_groundTruth = Missing,
             j_validFrom = None, j_validUntil = Value []\<rparr>"

section \<open>Properties of the validity filter\<close>

lemma Date_parse_nonempty: "Date_parse P s = Some t \<Longrightarrow> s \<noteq> []"
  by (auto simp: Date_parse_def split: if_splits)

text \<open>
  C3. A query valid from \<open>T1\<close> until \<open>T2\<close> (both parseable, \<open>T1 \<le> T2\<close>) is runnable at
  an instant \<open>now\<close> exactly when \<open>T1 \<le> now \<le> T2\<close>; it is not runnable one millisecond
  before \<open>T1\<close> nor one millisecond after \<open>T2\<close>.
\<close>

theorem C3_runnable_iff_in_window:
  assumes "validFrom q = Some s1" and "validUntil q = Value s2"
    and "Date_parse P s1 = Some T1" and "Date_parse P s2 = Some T2"
    and "T1 \<le> T2"
  shows "(isQueryRunnable P q (Some now) \<longleftrightarrow> T1 \<le> now \<and> now \<le> T2)
       \<and> \<not> isQueryRunnable P q (Some (T1 - 1))
       \<and> \<not> isQueryRunnable P q (Some (T2 + 1))"
proof -
  have ne: "s1 \<noteq> []" "s2 \<noteq> []"
    using assms(3,4) by (auto dest: Date_parse_nonempty)
  have run: "isQueryRunnable P q (Some n) \<longleftrightarrow> T1 \<le> n \<and> n \<le> T2" for n
    using assms(1-4) ne
    by (auto simp: isQueryRunnable_def before_validFrom_def after_validUntil_def new_Date_def)
  show ?thesis
    using run [of now] run [of "T1 - 1"] run [of "T2 + 1"] assms(5) by simp
qed

theorem C3_runnable_iff_in_window_witness:
  "isQueryRunnable example_parser
     \<lparr>query = ''Q'', groundTruth = None,
      validFrom = Some ''2025-01-28T23:00:00Z'', validUntil = Value ''2025-02-01T19:00:00Z''\<rparr>
     (Some 1738195200000)
   \<and> \<not> isQueryRunnable example_parser
     \<lparr>query = ''Q'', groundTruth = None,
      validFrom = Some ''2025-01-28T23:00:00Z'', validUntil = Value ''2025-02-01T19:00:00Z''\<rparr>
     (Some 1738105199999)
   \<and> \<not> isQueryRunnable example_parser
     \<lparr>query = ''Q'', groundTruth = None,
      validFrom = Some ''2025-01-28T23:00:00Z'', validUntil = Value ''2025-02-01T19:00:00Z''\<rparr>
     (Some 1738436400001)"
  using C3_runnable_iff_in_window
    [of "\<lparr>query = ''Q'', groundTruth = None,
      validFrom = Some ''2025-01-28T23:00:00Z'', validUntil = Value ''2025-02-01T19:00:00Z''\<rparr>"
      "''2025-01-28T23:00:00Z''" "''2025-02-01T19:00:00Z''" example_parser
      1738105200000 1738436400000 1738195200000]
  by (simp add: Date_parse_def example_parser_def)

text \<open>
  C8. A query valid from \<open>T1\<close> whose \<open>validUntil\<close> is an explicit null is runnable at
  every instant \<open>now \<ge> T1\<close>, however far in the future.
\<close>

theorem C8_null_validUntil_never_expires:
  assumes "validFrom q = Some s1" and "validUntil q = Null"
    and "Date_parse P s1 = Some T1" and "T1 \<le> now"
  shows "isQueryRunnable P q (Some now)"
  using assms
  by (auto simp: isQueryRunnable_def before_validFrom_def after_validUntil_def new_Date_def)

theorem C8_null_validUntil_never_expires_witness:
  "isQueryRunnable example_parser
     \<lparr>query = ''Q'', groundTruth = None,
      validFrom = Some ''2025-01-28T23:00:00Z'', validUntil = Null\<rparr>
     (Some 99999999999999999)"
  using C8_null_validUntil_never_expires
    [of "\<lparr>query = ''Q'', groundTruth = None,
      validFrom = Some ''2025-01-28T23:00:00Z'', validUntil = Null\<rparr>"
      "''2025-01-28T23:00:00Z''" example_parser 1738105200000 99999999999999999]
  by (simp add: Date_parse_def example_parser_def)

section \<open>Properties of the run orchestrator\<close>

lemma executeQuery_origin:
  assumes "executeQuery toISO reg q c w = (Inr r, w')"
  shows "query_of r = q" and "config_of r = c"
  using assms
  by (auto simp: executeQuery_def query_of_def config_of_def split_def Let_def split: sum.splits)

lemma run_configs_origin:
  "run_configs toISO reg q cs w = (Inr rs, w')
     \<Longrightarrow> map (\<lambda>r. (query_of r, config_of r)) rs = map (Pair q) cs"
proof (induction cs arbitrary: w rs w')
  case Nil
  then show ?case by simp
next
  case (Cons c cs)
  obtain o1 w1 where e: "executeQuery toISO reg q c w = (o1, w1)"
    by (cases "executeQuery toISO reg q c w")
  obtain o2 w2 where t: "run_configs toISO reg q cs w1 = (o2, w2)"
    by (cases "run_configs toISO reg q cs w1")
  from Cons.prems e t obtain r rest where
    r: "o1 = Inr r" and rest: "o2 = Inr rest" and rs: "rs = r # rest"
    by (auto split: sum.splits)
  have "map (\<lambda>r. (query_of r, config_of r)) rest = map (Pair q) cs"
    using Cons.IH t rest by simp
  moreover have "query_of r = q" "config_of r = c"
    using executeQuery_origin e r by blast+
  ultimately show ?case using rs by simp
qed

lemma run_queries_origin:
  "run_queries toISO reg qs cs w = (Inr rs, w')
     \<Longrightarrow> map (\<lambda>r. (query_of r, config_of r)) rs = List.product qs cs"
proof (induction qs arbitrary: w rs w')
  case Nil
  then show ?case by simp
next
  case (Cons q qs)
  obtain o1 w1 where e: "run_configs toISO reg q cs w = (o1, w1)"
    by (cases "run_configs toISO reg q cs w")
  obtain o2 w2 where t: "run_queries toISO reg qs cs w1 = (o2, w2)"
    by (cases "run_queries toISO reg qs cs w1")
  from Cons.prems e t obtain row rest where
    row: "o1 = Inr row" and rest: "o2 = Inr rest" and rs: "rs = row @ rest"
    by (auto split: sum.splits)
  have "map (\<lambda>r. (query_of r, config_of r)) rest = List.product qs cs"
    using Cons.IH t rest by simp
  moreover have "map (\<lambda>r. (query_of r, config_of r)) row = map (Pair q) cs"
    using run_configs_origin e row by blast
  ultimately show ?case using rs by simp
qed

lemma console_warn_frame [simp]:
  "env (console_warn l w) = env w"
  "static_file (console_warn l w) = static_file w"
  "temporal_file (console_warn l w) = temporal_file w"
  "temporal_fails_first (console_warn l w) = temporal_fails_first w"
  "files_read (console_warn l w) = files_read w"
  "clock (console_warn l w) = clock w"
  "ticks (console_warn l w) = ticks w"
  "clients (console_warn l w) = clients w"
  by (simp_all add: console_warn_def)

lemma Date_now_frame [simp]:
  "env (snd (Date_now w)) = env w"
  "static_file (snd (Date_now w)) = static_file w"
  "temporal_file (snd (Date_now w)) = temporal_file w"
  "temporal_fails_first (snd (Date_now w)) = temporal_fails_first w"
  "files_read (snd (Date_now w)) = files_read w"
  "warned (snd (Date_now w)) = warned w"
  "clients (snd (Date_now w)) = clients w"
  by (simp_all add: Date_now_def)

lemma filter_configs_frame:
  "static_file (snd (filter_configs cs w)) = static_file w
 \<and> temporal_file (snd (filter_configs cs w)) = temporal_file w
 \<and> temporal_fails_first (snd (filter_configs cs w)) = temporal_fails_first w
 \<and> files_read (snd (filter_configs cs w)) = files_read w
 \<and> env (snd (filter_configs cs w)) = env w"
  by (induction cs arbitrary: w) (auto simp: Let_def split_def split: sum.splits)

lemma product_Nil2: "List.product xs [] = []"
  by (induction xs) simp_all

lemma filter_configs_env:
  "env w = env v \<Longrightarrow> fst (filter_configs cs w) = fst (filter_configs cs v)"
proof (induction cs arbitrary: w v)
  case Nil
  then show ?case by simp
next
  case (Cons c cs)
  have a: "fst (filter_configs cs (console_warn l w)) = fst (filter_configs cs (console_warn l' v))" for l l'
    using Cons.IH [of "console_warn l w" "console_warn l' v"] Cons.prems by simp
  have b: "fst (filter_configs cs w) = fst (filter_configs cs v)"
    using Cons.IH [OF Cons.prems] .
  show ?case
    using a b Cons.prems
    by (auto simp: Let_def split: sum.splits prod.splits)
qed

lemma loadQueries_fst:
  "static_file w = static_file v \<Longrightarrow> temporal_file w = temporal_file v
     \<Longrightarrow> temporal_fails_first w = temporal_fails_first v
     \<Longrightarrow> fst (loadQueries w) = fst (loadQueries v)"
  by (simp add: loadQueries_def Let_def split: sum.splits)

lemma validateQueries_fst: "fst (validateQueries P qs w) = fst (validate_loop P 0 qs)"
  by (simp add: validateQueries_def split_def Let_def)

text \<open>
  C1. The results of a run artifact are the ordered cross product of the runnable query
  set (outer loop) and the runnable configuration set (inner loop): with \<open>N\<close> runnable
  queries and \<open>M\<close> runnable configurations there are exactly \<open>N * M\<close> records, and the
  record at position \<open>i * M + j\<close> was made from the \<open>i\<close>-th runnable query and the
  \<open>j\<close>-th runnable configuration.
\<close>

theorem C1_results_cross_product:
  assumes run: "runEvaluation P toISO reg configs w = (Inr artifact, w')"
    and rq: "rq = runnable_query_set P w"
    and rc: "rc = runnable_config_set configs w"
  shows "length (results artifact) = length rq * length rc
       \<and> (\<forall>i j. i < length rq \<and> j < length rc \<longrightarrow>
            query_of (results artifact ! (i * length rc + j)) = rq ! i
          \<and> config_of (results artifact ! (i * length rc + j)) = rc ! j)"
proof -
  have origin: "map (\<lambda>r. (query_of r, config_of r)) (results artifact) = List.product rq rc"
  proof (cases "filter_configs configs (snd (Date_now w))")
    case (Pair res w2)
    have fc: "fst (filter_configs configs w) = res"
      using filter_configs_env [of "snd (Date_now w)" w configs] Pair by simp
    show ?thesis
    proof (cases res)
      case (Inl e)
      with run Pair show ?thesis
        by (simp add: runEvaluation_def split_def Let_def)
    next
      case (Inr runnableConfigs)
      then have rc_eq: "rc = runnableConfigs"
        using fc rc by (simp add: runnable_config_set_def)
      show ?thesis
      proof (cases "runnableConfigs = []")
        case True
        with run Pair Inr have "results artifact = []"
          by (auto simp: runEvaluation_def split_def Let_def)
        with True rc_eq show ?thesis by (simp add: product_Nil2)
      next
        case False
        have w2: "static_file w2 = static_file w" "temporal_file w2 = temporal_file w"
          "temporal_fails_first w2 = temporal_fails_first w"
          using filter_configs_frame [of configs "snd (Date_now w)"] Pair by simp_all
        have lq: "fst (loadQueries w2) = fst (loadQueries w)"
          using w2 by (rule loadQueries_fst)
        show ?thesis
        proof (cases "loadQueries w2")
          case lp: (Pair loaded w3)
          show ?thesis
          proof (cases loaded)
            case (Inl e)
            with run Pair Inr False lp show ?thesis
              by (simp add: runEvaluation_def split_def Let_def)
          next
            case loadedq: (Inr allQueries)
            have rq_eq: "rq = runnable_queries P (fst (Date_now w)) (fst (validate_loop P 0 allQueries))"
            proof -
              have "fst (loadQueries w) = Inr allQueries"
                using lq lp loadedq by simp
              then show ?thesis
                using rq by (simp add: runnable_query_set_def)
            qed
            obtain o5 w5 where rqs:
              "run_queries toISO reg rq runnableConfigs
                 (snd (validateQueries P allQueries w3)) = (o5, w5)"
              by (cases "run_queries toISO reg rq runnableConfigs
                           (snd (validateQueries P allQueries w3))")
            have "o5 = Inr (results artifact)"
              using run Pair Inr False lp loadedq rq_eq rqs
              by (auto simp: runEvaluation_def split_def Let_def validateQueries_fst
                       split: sum.splits)
            then show ?thesis
              using rc_eq rqs run_queries_origin by blast
          qed
        qed
      qed
    qed
  qed
  have len: "length (results artifact) = length rq * length rc"
    using arg_cong [OF origin, of length] by simp
  have nth: "query_of (results artifact ! (i * length rc + j)) = rq ! i
          \<and> config_of (results artifact ! (i * length rc + j)) = rc ! j"
    if "i < length rq" "j < length rc" for i j
  proof -
    have "i * length rc + j < length rq * length rc"
    proof -
      have "i * length rc + j < (Suc i) * length rc" using that(2) by simp
      also have "\<dots> \<le> length rq * length rc"
        using that(1) by (intro mult_le_mono1) simp
      finally show ?thesis .
    qed
    then have lt: "i * length rc + j < length (results artifact)"
      using len by simp
    have "(query_of (results artifact ! (i * length rc + j)),
           config_of (results artifact ! (i * length rc + j)))
        = map (\<lambda>r. (query_of r, config_of r)) (results artifact) ! (i * length rc + j)"
      using lt by simp
    also have "\<dots> = List.product rq rc ! (i * length rc + j)"
      by (simp only: origin)
    also have "\<dots> = (rq ! i, rc ! j)"
    proof -
      have pos: "length rc \<noteq> 0"
        using that(2) by auto
      have d: "(i * length rc + j) div length rc = i"
        using that(2) pos by (simp add: div_mult_self3)
      have m: "(i * length rc + j) mod length rc = j"
        using that(2) by (simp add: mod_mult_self3)
      show ?thesis
        using \<open>i * length rc + j < length rq * length rc\<close>
        by (simp only: product_nth d m)
    qed
    finally show ?thesis by simp
  qed
  show ?thesis using len nth by blast
qed


text \<open>
  A call is recorded whenever the message of what its gateway throws can be built, and
  the run returns an artifact when every call is recorded; with an SDK that always
  replies, every call on the registry of the program is.
\<close>

lemma executeQuery_returns:
  assumes "\<And>g e. getGateway reg (gateway c) = Inr g
             \<Longrightarrow> fst (g (query q) (parameters c) (snd (Date_now (snd (Date_now w))))) = Inl e
             \<Longrightarrow> \<exists>m. message_of e = Inr m"
  shows "\<exists>r w1. executeQuery toISO reg q c w = (Inr r, w1)"
proof (cases "getGateway reg (gateway c)")
  case (Inl e)
  then have "\<exists>m. e = ErrorObj m"
    by (auto simp: getGateway_def split: option.splits if_splits)
  with Inl show ?thesis
    by (auto simp: executeQuery_def executeQuery_catch_def split_def Let_def)
next
  case (Inr g)
  show ?thesis
  proof (cases "fst (g (query q) (parameters c) (snd (Date_now (snd (Date_now w)))))")
    case (Inl e)
    with assms [OF Inr] obtain m where "message_of e = Inr m" by blast
    with Inr Inl show ?thesis
      by (auto simp: executeQuery_def executeQuery_catch_def split_def Let_def
               split: sum.splits prod.splits)
  next
    case Inr2: (Inr resp)
    with Inr show ?thesis
      by (auto simp: executeQuery_def split_def Let_def split: sum.splits prod.splits)
  qed
qed

lemma run_configs_returns:
  assumes "\<And>c w. \<exists>r w1. executeQuery toISO reg q c w = (Inr r, w1)"
  shows "\<exists>rs w'. run_configs toISO reg q cs w = (Inr rs, w')"
proof (induction cs arbitrary: w)
  case Nil
  then show ?case by simp
next
  case (Cons c cs)
  obtain r w1 where "executeQuery toISO reg q c w = (Inr r, w1)"
    using assms by blast
  moreover obtain rs w2 where "run_configs toISO reg q cs w1 = (Inr rs, w2)"
    using Cons.IH by blast
  ultimately show ?case by simp
qed

lemma run_queries_returns:
  assumes "\<And>q c w. \<exists>r w1. executeQuery toISO reg q c w = (Inr r, w1)"
  shows "\<exists>rs w'. run_queries toISO reg qs cs w = (Inr rs, w')"
proof (induction qs arbitrary: w)
  case Nil
  then show ?case by simp
next
  case (Cons q qs)
  obtain row w1 where "run_configs toISO reg q cs w = (Inr row, w1)"
    using run_configs_returns assms by blast
  moreover obtain rest w2 where "run_queries toISO reg qs cs w1 = (Inr rest, w2)"
    using Cons.IH by blast
  ultimately show ?case by simp
qed

lemma runEvaluation_returns:
  assumes "fst (filter_configs configs (snd (Date_now w))) = Inr rc"
    and "fst (loadQueries (snd (filter_configs configs (snd (Date_now w))))) = Inr qs"
    and "\<And>q c w. \<exists>r w1. executeQuery toISO reg q c w = (Inr r, w1)"
  shows "\<exists>a w'. runEvaluation P toISO reg configs w = (Inr a, w')"
proof -
  obtain w2 where fc: "filter_configs configs (snd (Date_now w)) = (Inr rc, w2)"
    using assms(1) by (cases "filter_configs configs (snd (Date_now w))") simp
  obtain w3 where lq: "loadQueries w2 = (Inr qs, w3)"
    using assms(2) fc by (cases "loadQueries w2") simp
  obtain rs w5 where
    "run_queries toISO reg
       (runnable_queries P (fst (Date_now w)) (fst (validateQueries P qs w3))) rc
       (snd (validateQueries P qs w3)) = (Inr rs, w5)"
    using run_queries_returns [OF assms(3)] by blast
  then show ?thesis
    using fc lq by (simp add: runEvaluation_def split_def Let_def)
qed

lemma gateway_search_example_sdk:
  "\<exists>resp. fst (gateway_search provider key with_id example_sdk q p w) = Inr resp"
  by (simp add: gateway_search_def getClient_def search_catch_def example_sdk_def
        split_def Let_def)

lemma executeQuery_example_sdk:
  "\<exists>r w1. executeQuery toISO (gateways example_sdk) q c w = (Inr r, w1)"
proof (rule executeQuery_returns)
  fix g e
  assume g: "getGateway (gateways example_sdk) (gateway c) = Inr g"
    and e: "fst (g (query q) (parameters c) (snd (Date_now (snd (Date_now w))))) = Inl e"
  from g consider "\<exists>provider key with_id. g = gateway_search provider key with_id example_sdk"
    | "g = not_a_gateway"
    by (auto simp: getGateway_def gateways_def TavilyGateway_def ParallelGateway_def
          YouGateway_def split: if_splits)
  then show "\<exists>m. message_of e = Inr m"
  proof cases
    case 1
    then show ?thesis
      using e gateway_search_example_sdk by (metis sum.distinct(1))
  next
    case 2
    then show ?thesis
      using e by (auto simp: not_a_gateway_def)
  qed
qed

lemma example_runnable_configs:
  "env w = example_env \<Longrightarrow> fst (filter_configs example_configs w) = Inr [tavily_basic, you_default]"
  by (simp add: example_configs_def required_env_def
      requiredEnvByGateway_def tavily_basic_def parallel_default_def you_default_def example_env_def
      object_prototype_keys_def split_def)

lemma example_runnable_queries:
  "runnable_query_set example_parser example_world = [world_cup_query, real_madrid_query]"
  by (simp add: runnable_query_set_def loadQueries_def example_world_def validate_entry_def
      trim_is_empty_def is_js_space_def invalid_validFrom_def invalid_validUntil_def
      from_after_until_def isValidIsoDate_def Date_parse_def example_parser_def new_Date_def
      runnable_queries_def isQueryRunnable_def before_validFrom_def after_validUntil_def
      Date_now_def world_cup_query_def real_madrid_query_def)

lemma example_run_returns:
  "\<exists>a w'. runEvaluation P toISO (gateways example_sdk) example_configs example_world = (Inr a, w')"
proof (rule runEvaluation_returns)
  show "fst (filter_configs example_configs (snd (Date_now example_world))) = Inr [tavily_basic, you_default]"
    by (rule example_runnable_configs) (simp add: example_world_def)
  have "fst (loadQueries (snd (filter_configs example_configs (snd (Date_now example_world)))))
      = fst (loadQueries example_world)"
    by (rule loadQueries_fst) (simp_all add: filter_configs_frame)
  then show "fst (loadQueries (snd (filter_configs example_configs (snd (Date_now example_world)))))
      = Inr (projr (static_file example_world) @ projr (temporal_file example_world))"
    by (simp add: loadQueries_def example_world_def)
  show "\<exists>r w1. executeQuery toISO (gateways example_sdk) q c w = (Inr r, w1)" for q c w
    by (rule executeQuery_example_sdk)
qed

theorem C1_results_cross_product_witness:
  "\<exists>a w'. runEvaluation example_parser example_toISO (gateways example_sdk) example_configs
              example_world = (Inr a, w')
     \<and> length (results a) = 2 * 2
     \<and> query_of (results a ! (1 * 2 + 1)) = real_madrid_query
     \<and> config_of (results a ! (1 * 2 + 1)) = you_default"
proof -
  obtain a w' where run:
    "runEvaluation example_parser example_toISO (gateways example_sdk) example_configs
       example_world = (Inr a, w')"
    using example_run_returns by blast
  have rc: "[tavily_basic, you_default] = runnable_config_set example_configs example_world"
    by (simp add: runnable_config_set_def example_runnable_configs example_world_def)
  have rq: "[world_cup_query, real_madrid_query] = runnable_query_set example_parser example_world"
    by (simp add: example_runnable_queries)
  note c1 = C1_results_cross_product [OF run rq rc]
  from c1 have len: "length (results a) = 2 * 2"
    by simp
  from c1 have
    "(1::nat) < length [world_cup_query, real_madrid_query] \<and> (1::nat) < length [tavily_basic, you_default] \<longrightarrow>
       query_of (results a ! (1 * length [tavily_basic, you_default] + 1))
         = [world_cup_query, real_madrid_query] ! 1
     \<and> config_of (results a ! (1 * length [tavily_basic, you_default] + 1))
         = [tavily_basic, you_default] ! 1"
    by blast
  then have "query_of (results a ! (1 * 2 + 1)) = real_madrid_query
     \<and> config_of (results a ! (1 * 2 + 1)) = you_default"
    by (simp add: eval_nat_numeral)
  with run len show ?thesis by blast
qed

section \<open>Properties of the result store lookup and of the grading pass\<close>

lemma latest_of_sorted:
  fixes xs :: "'a::linorder list"
  assumes "rev (sort xs) = y # ys"
  shows "y \<in> set xs \<and> (\<forall>x \<in> set xs. x \<le> y)"
proof -
  have ne: "sort xs \<noteq> []" using assms by auto
  have y: "y = last (sort xs)"
    using assms ne by (metis hd_rev list.sel(1))
  have "last (sort xs) \<in> set (sort xs)" using ne by (rule last_in_set)
  then have m: "y \<in> set xs" using y by simp
  have "x \<le> y" if "x \<in> set xs" for x
  proof -
    have "x \<in> set (sort xs)" using that by simp
    then obtain i where i: "i < length (sort xs)" "sort xs ! i = x"
      by (metis in_set_conv_nth)
    have "sort xs ! i \<le> sort xs ! (length (sort xs) - 1)"
      using i(1) by (intro sorted_nth_mono) auto
    then show ?thesis using i(2) y ne by (simp add: last_conv_nth)
  qed
  with m show ?thesis by blast
qed

text \<open>
  C9. \<open>findLatestResultsFile\<close>, given the listing of the results directory, keeps the
  names that end in \<open>.json\<close> and returns the location of the lexicographically greatest
  one when there is one; when there is none it fails with an error and returns no
  location.
\<close>

theorem C9_findLatest:
  assumes "readdir d (join_path projectRoot ''results'') = Inr files"
  shows "((\<exists>f \<in> set files. endsWith f ''.json'') \<longrightarrow>
            (\<exists>latest. findLatestResultsFile projectRoot d
                        = Inr (join_path (join_path projectRoot ''results'') latest)
               \<and> latest \<in> set files \<and> endsWith latest ''.json''
               \<and> (\<forall>f \<in> set files. endsWith f ''.json'' \<longrightarrow> f \<le> latest)))
       \<and> ((\<forall>f \<in> set files. \<not> endsWith f ''.json'') \<longrightarrow>
            findLatestResultsFile projectRoot d = Inl (ErrorObj ''No results files found in results/''))"
proof (intro conjI impI)
  assume "\<exists>f \<in> set files. endsWith f ''.json''"
  then have "filter (\<lambda>f. endsWith f ''.json'') files \<noteq> []"
    by (auto simp: filter_empty_conv)
  then have "rev (sort (filter (\<lambda>f. endsWith f ''.json'') files)) \<noteq> []"
    by (metis rev_is_Nil_conv set_empty set_sort)
  then obtain y ys where ys: "rev (sort (filter (\<lambda>f. endsWith f ''.json'') files)) = y # ys"
    by (cases "rev (sort (filter (\<lambda>f. endsWith f ''.json'') files))") auto
  from latest_of_sorted [OF ys]
  have "y \<in> set files" "endsWith y ''.json''" "\<forall>f \<in> set files. endsWith f ''.json'' \<longrightarrow> f \<le> y"
    by auto
  moreover have "findLatestResultsFile projectRoot d = Inr (join_path (join_path projectRoot ''results'') y)"
    using assms ys by (simp add: findLatestResultsFile_def Let_def)
  ultimately show "\<exists>latest. findLatestResultsFile projectRoot d
                        = Inr (join_path (join_path projectRoot ''results'') latest)
               \<and> latest \<in> set files \<and> endsWith latest ''.json''
               \<and> (\<forall>f \<in> set files. endsWith f ''.json'' \<longrightarrow> f \<le> latest)"
    by blast
next
  assume "\<forall>f \<in> set files. \<not> endsWith f ''.json''"
  then have "filter (\<lambda>f. endsWith f ''.json'') files = []"
    by (auto simp: filter_empty_conv)
  then show "findLatestResultsFile projectRoot d = Inl (ErrorObj ''No results files found in results/'')"
    using assms by (simp add: findLatestResultsFile_def Let_def)
qed

theorem C9_findLatest_witness:
  "findLatestResultsFile ''/srv/search-evals'' example_disk
     = Inr ''/srv/search-evals/results/2025-02-01T09-00-00.000Z.json''
 \<and> findLatestResultsFile ''/srv/search-evals'' (example_disk\<lparr>readdir := (\<lambda>p. Inr [''notes.txt''])\<rparr>)
     = Inl (ErrorObj ''No results files found in results/'')"
proof
  have dir: "readdir example_disk (join_path ''/srv/search-evals'' ''results'')
      = Inr [''2025-01-30T14-30-00.000Z.json'', ''notes.txt'',
             ''2025-02-01T09-00-00.000Z.json'', ''2025-01-28T10-00-00.000Z.json'']"
    by (simp add: example_disk_def join_path_def)
  have some: "\<exists>f \<in> set [''2025-01-30T14-30-00.000Z.json'', ''notes.txt'',
             ''2025-02-01T09-00-00.000Z.json'', ''2025-01-28T10-00-00.000Z.json'']. endsWith f ''.json''"
    by (simp add: endsWith_def)
  from C9_findLatest [OF dir] some
  obtain latest where
    found: "findLatestResultsFile ''/srv/search-evals'' example_disk
              = Inr (join_path (join_path ''/srv/search-evals'' ''results'') latest)"
    and mem: "latest \<in> set [''2025-01-30T14-30-00.000Z.json'', ''notes.txt'',
             ''2025-02-01T09-00-00.000Z.json'', ''2025-01-28T10-00-00.000Z.json'']"
    and json: "endsWith latest ''.json''"
    and greatest: "\<forall>f \<in> set [''2025-01-30T14-30-00.000Z.json'', ''notes.txt'',
             ''2025-02-01T09-00-00.000Z.json'', ''2025-01-28T10-00-00.000Z.json''].
             endsWith f ''.json'' \<longrightarrow> f \<le> latest"
    by blast
  from greatest have ge: "''2025-02-01T09-00-00.000Z.json'' \<le> latest"
    by (simp add: endsWith_def)
  have "latest = ''2025-02-01T09-00-00.000Z.json''"
    using mem json ge by (auto simp: endsWith_def)
  with found show "findLatestResultsFile ''/srv/search-evals'' example_disk
     = Inr ''/srv/search-evals/results/2025-02-01T09-00-00.000Z.json''"
    by (simp add: join_path_def)
next
  have dir: "readdir (example_disk\<lparr>readdir := (\<lambda>p. Inr [''notes.txt''])\<rparr>)
               (join_path ''/srv/search-evals'' ''results'') = Inr [''notes.txt'']"
    by simp
  have none: "\<forall>f \<in> set [''notes.txt'']. \<not> endsWith f ''.json''"
    by (simp add: endsWith_def)
  from C9_findLatest [OF dir] none
  show "findLatestResultsFile ''/srv/search-evals'' (example_disk\<lparr>readdir := (\<lambda>p. Inr [''notes.txt''])\<rparr>)
     = Inl (ErrorObj ''No results files found in results/'')"
    by blast
qed

text \<open>
  C5, as stated, fails: the grading pass removes no record before the request. For an
  artifact holding a record with an error and a record without a ground truth, the
  message sent contains both.
\<close>

theorem C5_ungradable_records_are_submitted:
  "sublist erroring_record
     (snd (hd (messages (grading_request ''gpt-4o'' example_instructions example_artifact))))
 \<and> sublist no_truth_record
     (snd (hd (messages (grading_request ''gpt-4o'' example_instructions example_artifact))))"
proof
  have "snd (hd (messages (grading_request ''gpt-4o'' example_instructions example_artifact)))
      = (example_instructions @ [CHR 0x0A, CHR 0x0A] @ ''## Results to Evaluate''
         @ [CHR 0x0A, CHR 0x0A] @ artifact_head)
        @ erroring_record @ ('','' @ no_truth_record @ '']}'')"
    by (simp add: grading_request_def example_artifact_def)
  then show "sublist erroring_record
     (snd (hd (messages (grading_request ''gpt-4o'' example_instructions example_artifact))))"
    by (simp only: sublist_appendI)
  have "snd (hd (messages (grading_request ''gpt-4o'' example_instructions example_artifact)))
      = (example_instructions @ [CHR 0x0A, CHR 0x0A] @ ''## Results to Evaluate''
         @ [CHR 0x0A, CHR 0x0A] @ artifact_head @ erroring_record @ '','')
        @ no_truth_record @ '']}''"
    by (simp add: grading_request_def example_artifact_def)
  then show "sublist no_truth_record
     (snd (hd (messages (grading_request ''gpt-4o'' example_instructions example_artifact))))"
    by (simp only: sublist_appendI)
qed

text \<open>
  C5, as amended. \<open>evaluate\<close> filters nothing itself: the one user message of its
  request is the instructions, the heading and the whole text of the results file,
  unchanged; the reply to that request is what it writes under \<open>evals/\<close>, with the
  file name of the results.
\<close>

theorem C5_whole_artifact_is_submitted:
  assumes "readFile d resultsPath = Inr results_text"
    and "readFile d (join_path projectRoot ''EVALUATOR_INSTRUCTIONS.md'') = Inr instructions"
    and "client (grading_request (eval_model d) instructions results_text) = Inr (Some output)"
    and "mkdir_throws d (join_path projectRoot ''evals'') = None"
    and "writeFile_throws d (join_path (join_path projectRoot ''evals'') (basename resultsPath)) = None"
  shows "messages (grading_request (eval_model d) instructions results_text)
           = [(''user'', instructions @ [CHR 0x0A, CHR 0x0A] @ ''## Results to Evaluate''
                         @ [CHR 0x0A, CHR 0x0A] @ results_text)]
       \<and> fst (evaluate projectRoot client is_json resultsPath d)
           = Inr (join_path (join_path projectRoot ''evals'') (basename resultsPath))
       \<and> readFile (snd (evaluate projectRoot client is_json resultsPath d))
            (join_path (join_path projectRoot ''evals'') (basename resultsPath)) = Inr output"
  using assms
  by (simp add: evaluate_def grading_request_def Let_def)

theorem C5_whole_artifact_is_submitted_witness:
  "messages (grading_request ''gpt-4o'' example_instructions example_artifact)
     = [(''user'', example_instructions @ [CHR 0x0A, CHR 0x0A] @ ''## Results to Evaluate''
                   @ [CHR 0x0A, CHR 0x0A] @ example_artifact)]
 \<and> fst (evaluate ''/srv/search-evals'' example_llm (\<lambda>s. s = ''[]'')
          ''/srv/search-evals/results/r1.json'' artifact_disk)
     = Inr ''/srv/search-evals/evals/r1.json''
 \<and> readFile (snd (evaluate ''/srv/search-evals'' example_llm (\<lambda>s. s = ''[]'')
          ''/srv/search-evals/results/r1.json'' artifact_disk))
       ''/srv/search-evals/evals/r1.json'' = Inr ''[]''"
  using C5_whole_artifact_is_submitted
    [of artifact_disk "''/srv/search-evals/results/r1.json''" example_artifact "''/srv/search-evals''"
        example_instructions example_llm "''[]''" "\<lambda>s. s = ''[]''"]
  by (simp add: artifact_disk_def example_disk_def join_path_def basename_def eval_model_def
        example_llm_def)

text \<open>
  C10. When the credential pre-check keeps no configuration, \<open>runEvaluation\<close> returns
  an artifact with no results and reads no query file, whatever the query files hold:
  the run succeeds even where reading or parsing them would fail.
\<close>

theorem C10_no_runnable_config_skips_queries:
  assumes "fst (filter_configs configs w) = Inr []"
  shows "\<exists>a w'. runEvaluation P toISO reg configs w = (Inr a, w')
           \<and> results a = [] \<and> files_read w' = files_read w
           \<and> warned w' = warned (snd (filter_configs configs (snd (Date_now w))))
                @ [''No runnable configs. Set missing API keys to run evaluations.'']"
proof -
  have fc: "fst (filter_configs configs (snd (Date_now w))) = Inr []"
    using filter_configs_env [of "snd (Date_now w)" w configs] assms by simp
  obtain w2 where w2: "filter_configs configs (snd (Date_now w)) = (Inr [], w2)"
    using fc by (cases "filter_configs configs (snd (Date_now w))") simp
  have "files_read w2 = files_read w"
    using filter_configs_frame [of configs "snd (Date_now w)"] w2 by simp
  then show ?thesis
    using w2 by (simp add: runEvaluation_def split_def Let_def console_warn_def)
qed

theorem C10_no_runnable_config_skips_queries_witness:
  "\<exists>a w'. runEvaluation example_parser example_toISO (gateways example_sdk) [parallel_default]
             unreadable_world = (Inr a, w')
     \<and> results a = [] \<and> files_read w' = []
     \<and> warned w' = [''Skipping config parallel-default (missing PARALLEL_API_KEY)'',
                      ''No runnable configs. Set missing API keys to run evaluations.'']"
proof -
  have none: "fst (filter_configs [parallel_default] unreadable_world) = Inr []"
    by (simp add: unreadable_world_def example_world_def example_env_def parallel_default_def
          required_env_def requiredEnvByGateway_def)
  have skipped: "warned (snd (filter_configs [parallel_default] (snd (Date_now unreadable_world))))
      = [''Skipping config parallel-default (missing PARALLEL_API_KEY)'']"
    by (simp add: unreadable_world_def example_world_def example_env_def parallel_default_def
          required_env_def requiredEnvByGateway_def Date_now_def console_warn_def)
  have unread: "files_read unreadable_world = []"
    by (simp add: unreadable_world_def example_world_def)
  from C10_no_runnable_config_skips_queries [OF none]
  show ?thesis
    by (simp only: skipped unread append_Cons append_Nil)
qed

text \<open>With a runnable configuration the same unreadable query files fail the run.\<close>

lemma unreadable_run_fails:
  "fst (runEvaluation example_parser example_toISO (gateways example_sdk) [tavily_basic] unreadable_world)
     = Inl (ErrorObj ''ENOENT: no such file or directory'')"
  by (simp add: runEvaluation_def unreadable_world_def example_world_def example_env_def tavily_basic_def
          required_env_def requiredEnvByGateway_def Date_now_def loadQueries_def split_def Let_def)

section \<open>Properties of a single call\<close>

text \<open>What the flag of a record says about its response, in every case.\<close>

lemma executeQuery_hasError:
  assumes "executeQuery toISO reg q c w = (Inr r, w')"
  shows "hasError r = (\<exists>m. error (response r) = Some m \<and> m \<noteq> [])"
proof -
  have "hasError r = truthy (error (response r))"
    using assms by (auto simp: executeQuery_def split_def Let_def split: sum.splits)
  then show ?thesis
    by (cases "error (response r)") simp_all
qed

text \<open>
  C2. The claim is that \<open>hasError\<close> holds exactly when the error field of the response
  is defined, also for a defined but empty error. The code computes \<open>hasError\<close> by
  truthiness: with the You gateway and an SDK call that throws an \<open>Error\<close> with an
  empty message, the record carries a defined, empty error and \<open>hasError\<close> is false.
\<close>

theorem C2_empty_error_is_not_flagged:
  "\<exists>r w'. executeQuery example_toISO (gateways silent_sdk)
             world_cup_query you_default keyed_world = (Inr r, w')
     \<and> error (response r) = Some []
     \<and> \<not> hasError r"
  by (simp add: executeQuery_def gateways_def getGateway_def you_default_def YouGateway_def
        gateway_search_def getClient_def keyed_world_def example_world_def silent_sdk_def
        search_catch_def Date_now_def split_def Let_def)

lemma console_warn_all_env: "env (console_warn_all ls w) = env w"
  by (induction ls arbitrary: w) simp_all

lemma validateQueries_env: "env (snd (validateQueries P qs w)) = env w"
  by (simp add: validateQueries_def split_def Let_def console_warn_all_env)

lemma loadQueries_env: "env (snd (loadQueries w)) = env w"
  by (simp add: loadQueries_def Let_def split: sum.splits)

lemma run_queries_rejects:
  assumes "fst (executeQuery toISO reg q c w) = Inl e"
  shows "fst (run_queries toISO reg (q # qs) (c # cs) w) = Inl e"
  using assms by (cases "executeQuery toISO reg q c w") simp

lemma runEvaluation_rejects:
  assumes "filter_configs configs (snd (Date_now w)) = (Inr rc, w2)" and "rc \<noteq> []"
    and "loadQueries w2 = (Inr qs, w3)"
    and "fst (run_queries toISO reg
                (runnable_queries P (fst (Date_now w)) (fst (validateQueries P qs w3))) rc
                (snd (validateQueries P qs w3))) = Inl e"
  shows "fst (runEvaluation P toISO reg configs w) = Inl e"
  using assms
  by (cases "run_queries toISO reg
                (runnable_queries P (fst (Date_now w)) (fst (validateQueries P qs w3))) rc
                (snd (validateQueries P qs w3))")
     (simp add: runEvaluation_def split_def Let_def)

text \<open>
  C4, as stated, fails on the registry of the program. When the You SDK throws an
  object whose conversion to a string throws an \<open>Error\<close> with an empty message,
  \<open>search\<close> throws that error and the record has an empty error message (and is not
  flagged). When what the conversion throws is again such an object, \<open>executeQuery\<close>
  throws in its own \<open>catch\<close>: no record is made and the run rejects.
\<close>

theorem C4_thrown_search_without_message:
  "fst (YouGateway (unprintable_sdk (ErrorObj [])) (query world_cup_query) (parameters you_default)
          (snd (Date_now (snd (Date_now keyed_world))))) = Inl (ErrorObj [])
 \<and> (\<exists>r w'. executeQuery example_toISO (gateways (unprintable_sdk (ErrorObj [])))
               world_cup_query you_default keyed_world = (Inr r, w')
       \<and> error (response r) = Some [] \<and> \<not> hasError r)
 \<and> fst (YouGateway (unprintable_sdk (Unprintable (ErrorObj ''boom''))) (query world_cup_query)
          (parameters you_default) (snd (Date_now (snd (Date_now keyed_world)))))
      = Inl (Unprintable (ErrorObj ''boom''))
 \<and> fst (runEvaluation example_parser example_toISO
          (gateways (unprintable_sdk (Unprintable (ErrorObj ''boom''))))
          [you_default, tavily_basic] keyed_world) = Inl (ErrorObj ''boom'')"
proof (intro conjI)
  show "fst (YouGateway (unprintable_sdk (ErrorObj [])) (query world_cup_query) (parameters you_default)
          (snd (Date_now (snd (Date_now keyed_world))))) = Inl (ErrorObj [])"
    by (simp add: YouGateway_def gateway_search_def getClient_def keyed_world_def
          example_world_def unprintable_sdk_def search_catch_def Date_now_def split_def Let_def)
  show "\<exists>r w'. executeQuery example_toISO (gateways (unprintable_sdk (ErrorObj [])))
               world_cup_query you_default keyed_world = (Inr r, w')
       \<and> error (response r) = Some [] \<and> \<not> hasError r"
    by (simp add: executeQuery_def executeQuery_catch_def gateways_def getGateway_def
          you_default_def YouGateway_def gateway_search_def getClient_def keyed_world_def
          example_world_def unprintable_sdk_def search_catch_def Date_now_def split_def Let_def)
  show "fst (YouGateway (unprintable_sdk (Unprintable (ErrorObj ''boom''))) (query world_cup_query)
          (parameters you_default) (snd (Date_now (snd (Date_now keyed_world)))))
      = Inl (Unprintable (ErrorObj ''boom''))"
    by (simp add: YouGateway_def gateway_search_def getClient_def keyed_world_def
          example_world_def unprintable_sdk_def search_catch_def Date_now_def split_def Let_def)
  have cfgs: "filter_configs [you_default, tavily_basic] w = (Inr [you_default, tavily_basic], w)"
    if "env w = (\<lambda>key. Some ''secret'')" for w
    using that
    by (simp add: you_default_def tavily_basic_def required_env_def requiredEnvByGateway_def
          object_prototype_keys_def)
  have first: "fst (executeQuery example_toISO
                 (gateways (unprintable_sdk (Unprintable (ErrorObj ''boom''))))
                 world_cup_query you_default w) = Inl (ErrorObj ''boom'')"
    if "env w = (\<lambda>key. Some ''secret'')" for w
    using that
    by (simp add: executeQuery_def executeQuery_catch_def gateways_def getGateway_def
          you_default_def YouGateway_def gateway_search_def getClient_def
          unprintable_sdk_def search_catch_def Date_now_def split_def Let_def)
  have keys: "env (snd (Date_now keyed_world)) = (\<lambda>key. Some ''secret'')"
    by (simp add: keyed_world_def)
  obtain loaded w3 where lq: "loadQueries (snd (Date_now keyed_world)) = (Inr loaded, w3)"
    and loaded: "fst (validate_loop example_parser 0 loaded) = [world_cup_query, real_madrid_query]"
    by (simp add: loadQueries_def keyed_world_def example_world_def Date_now_def Let_def
          validate_entry_def trim_is_empty_def is_js_space_def invalid_validFrom_def
          invalid_validUntil_def from_after_until_def isValidIsoDate_def Date_parse_def
          example_parser_def new_Date_def world_cup_query_def real_madrid_query_def)
  have w3: "env w3 = (\<lambda>key. Some ''secret'')"
    using loadQueries_env [of "snd (Date_now keyed_world)"] lq keys by simp
  have rq: "runnable_queries example_parser (fst (Date_now keyed_world))
              (fst (validateQueries example_parser loaded w3))
            = [world_cup_query, real_madrid_query]"
    by (simp add: validateQueries_fst loaded runnable_queries_def isQueryRunnable_def
          before_validFrom_def after_validUntil_def new_Date_def Date_parse_def
          example_parser_def world_cup_query_def real_madrid_query_def
          Date_now_def keyed_world_def example_world_def)
  have "fst (run_queries example_toISO
               (gateways (unprintable_sdk (Unprintable (ErrorObj ''boom''))))
               [world_cup_query, real_madrid_query] [you_default, tavily_basic]
               (snd (validateQueries example_parser loaded w3))) = Inl (ErrorObj ''boom'')"
    by (rule run_queries_rejects, rule first) (simp add: validateQueries_env w3)
  then show "fst (runEvaluation example_parser example_toISO
          (gateways (unprintable_sdk (Unprintable (ErrorObj ''boom''))))
          [you_default, tavily_basic] keyed_world) = Inl (ErrorObj ''boom'')"
    using runEvaluation_rejects [OF cfgs [OF keys] _ lq, of example_toISO
            "gateways (unprintable_sdk (Unprintable (ErrorObj ''boom'')))" example_parser
            "ErrorObj ''boom''"]
    by (simp only: rq list.distinct not_False_eq_True simp_thms)
qed

lemma run_from_Cons:
  assumes "executeQuery toISO reg q c w = (Inr r, w1)"
  shows "run_from toISO reg q (c # cs) qs every w
           = (case run_from toISO reg q cs qs every w1 of
                (Inl e, w2) \<Rightarrow> (Inl e, w2)
              | (Inr rest, w2) \<Rightarrow> (Inr (r # rest), w2))"
  using assms by (simp add: run_from_def split: prod.splits sum.splits)

lemma run_queries_run_from:
  "run_queries toISO reg (q # qs) every w = run_from toISO reg q every qs every w"
  by (simp add: run_from_def)

lemma run_from_origin:
  assumes "run_from toISO reg q cs qs every w = (Inr rs, w')"
  shows "map (\<lambda>r. (query_of r, config_of r)) rs = map (Pair q) cs @ List.product qs every"
  using assms run_configs_origin run_queries_origin
  by (fastforce simp: run_from_def split: prod.splits sum.splits)

text \<open>
  C4, as amended. When the gateway resolved for a pair throws from \<open>search\<close> a value
  whose message can be built and is a string, the call is recorded: the record's error
  is that message, and the record is flagged when the message is not empty. The run
  goes on: its outcome from this pair on is this record followed by the outcome of the
  run from the next pair on, through the remaining configurations for this query and
  every pair of the later queries.
\<close>

theorem C4_thrown_search_is_recorded:
  assumes "getGateway reg (gateway c) = Inr g"
    and "fst (g (query q) (parameters c) (snd (Date_now (snd (Date_now w))))) = Inl e"
    and "message_of e = Inr (Some m)"
  shows "\<exists>r w1. executeQuery toISO reg q c w = (Inr r, w1)
           \<and> error (response r) = Some m
           \<and> (m \<noteq> [] \<longrightarrow> hasError r)
           \<and> query_of r = q \<and> config_of r = c
           \<and> run_from toISO reg q (c # cs) qs every w
               = (case run_from toISO reg q cs qs every w1 of
                    (Inl e', w2) \<Rightarrow> (Inl e', w2)
                  | (Inr rest, w2) \<Rightarrow> (Inr (r # rest), w2))"
proof -
  obtain r w1 where run: "executeQuery toISO reg q c w = (Inr r, w1)"
    and err: "error (response r) = Some m"
    using assms
    by (auto simp: executeQuery_def executeQuery_catch_def split_def Let_def
             split: sum.splits prod.splits)
  have flag: "m \<noteq> [] \<longrightarrow> hasError r"
    using executeQuery_hasError [OF run] err by simp
  have origin: "query_of r = q" "config_of r = c"
    using executeQuery_origin [OF run] by simp_all
  show ?thesis
    using run err flag origin run_from_Cons [OF run] by blast
qed

theorem C4_thrown_search_is_recorded_witness:
  "\<exists>r w1. executeQuery example_toISO (gateways (unprintable_sdk (ErrorObj ''socket hang up'')))
             world_cup_query you_default keyed_world = (Inr r, w1)
     \<and> error (response r) = Some ''socket hang up''
     \<and> hasError r
     \<and> query_of r = world_cup_query \<and> config_of r = you_default
     \<and> run_from example_toISO (gateways (unprintable_sdk (ErrorObj ''socket hang up'')))
          world_cup_query [you_default, tavily_basic] [real_madrid_query]
          [you_default, tavily_basic] keyed_world
         = (case run_from example_toISO (gateways (unprintable_sdk (ErrorObj ''socket hang up'')))
                  world_cup_query [tavily_basic] [real_madrid_query]
                  [you_default, tavily_basic] w1 of
              (Inl e', w2) \<Rightarrow> (Inl e', w2)
            | (Inr rest, w2) \<Rightarrow> (Inr (r # rest), w2))"
proof -
  have g: "getGateway (gateways (unprintable_sdk (ErrorObj ''socket hang up''))) (gateway you_default)
             = Inr (YouGateway (unprintable_sdk (ErrorObj ''socket hang up'')))"
    by (simp add: getGateway_def gateways_def you_default_def)
  have t: "fst (YouGateway (unprintable_sdk (ErrorObj ''socket hang up'')) (query world_cup_query)
                  (parameters you_default) (snd (Date_now (snd (Date_now keyed_world)))))
             = Inl (ErrorObj ''socket hang up'')"
    by (simp add: YouGateway_def gateway_search_def getClient_def keyed_world_def
          example_world_def unprintable_sdk_def search_catch_def Date_now_def split_def Let_def)
  have m: "message_of (ErrorObj ''socket hang up'') = Inr (Some ''socket hang up'')"
    by simp
  from C4_thrown_search_is_recorded [OF g t m, of example_toISO "[tavily_basic]"
        "[real_madrid_query]" "[you_default, tavily_basic]"]
  show ?thesis
    by (simp del: run_configs.simps run_queries.simps)
qed

section \<open>Properties of the credential pre-check\<close>

text \<open>
  C6. The claim is that a configuration whose provider lacks its credential is skipped
  before any call, also for the You gateway. The table of the pre-check has no entry
  for \<open>you\<close>: with \<open>YOU_API_KEY\<close> unset the Parallel configuration is skipped with a
  warning, the You configuration is kept, and its call is dispatched and recorded with
  the error of the missing key.
\<close>

theorem C6_you_config_is_not_skipped:
  "fst (filter_configs [parallel_default, you_default] example_world) = Inr [you_default]
 \<and> warned (snd (filter_configs [parallel_default, you_default] example_world))
     = [''Skipping config parallel-default (missing PARALLEL_API_KEY)'']
 \<and> (\<exists>r w'. executeQuery example_toISO (gateways example_sdk)
               world_cup_query you_default example_world = (Inr r, w')
       \<and> error (response r) = Some ''YOU_API_KEY environment variable is not set''
       \<and> hasError r)"
  by (simp add: example_world_def example_env_def parallel_default_def you_default_def
        required_env_def requiredEnvByGateway_def object_prototype_keys_def console_warn_def
        executeQuery_def gateways_def getGateway_def YouGateway_def
        gateway_search_def getClient_def search_catch_def Date_now_def split_def Let_def)

section \<open>Properties of the query validator\<close>

text \<open>
  C7. The claim is that an entry whose \<open>validFrom\<close> is present but no parseable
  timestamp is dropped, the empty string included. The test on \<open>validFrom\<close> is by
  truthiness: an entry with an empty \<open>validFrom\<close> is kept, without a warning, under
  every date parser, whereas an entry with an empty \<open>validUntil\<close> is dropped.
\<close>

theorem C7_empty_validFrom_is_kept:
  "validate_loop P 0 [empty_validFrom_entry]
     = ([\<lparr>query = ''Q'', groundTruth = None, validFrom = Some [], validUntil = Undefined\<rparr>], [])
 \<and> fst (validate_loop P 0 [empty_validUntil_entry]) = []"
  by (simp add: empty_validFrom_entry_def empty_validUntil_entry_def validate_entry_def
        trim_is_empty_def is_js_space_def invalid_validFrom_def invalid_validUntil_def
        from_after_until_def)

end
